theory Spec2Isabelle
  imports Complex_Main "HOL-Library.Sublist"
begin

section \<open>JavaScript values, errors and objects\<close>

text \<open>
  The controller of \<^verbatim>\<open>src/class/simplecontroller.js\<close> is dynamically typed: every
  argument, field and result is a JavaScript value. Numbers are only forwarded by the
  controller, never computed with, so they are kept as rationals (the default
  \<^verbatim>\<open>truePercent = 0.5\<close> is not an integer). Browser, page, frame and element
  handles are objects of the driver and are known by their identity only; a required
  module and a class are known by their name.
\<close>

datatype jsval =
    VUndefined
  | VNull
  | VBool bool
  | VNum rat
  | VStr string
  | VRef nat
  | VModule string
  | VClass string
  | VArr "jsval list"
  | VObj "(string \<times> jsval) list"

datatype error =
    TypeError
  | RangeError
  | ReferenceError string
  | InitializationError
  | DisposedError
  | ElementNotFoundError
  | NavigationTimeoutError
  | FrameNotResolvedError
  | CaptchaServiceError
  | DriverError string

text \<open>
  The controller instance \<^verbatim>\<open>this\<close>: a map from property names to values. Reading
  a property that was never assigned gives \<^verbatim>\<open>undefined\<close>.
\<close>

type_synonym obj = "string \<rightharpoonup> jsval"

definition field :: "obj \<Rightarrow> string \<Rightarrow> jsval" where
  "field this k = (case this k of None \<Rightarrow> VUndefined | Some v \<Rightarrow> v)"

text \<open>
  Reading a property of a value (\<^verbatim>\<open>init.page\<close>): a TypeError on
  \<^verbatim>\<open>undefined\<close> and \<^verbatim>\<open>null\<close>, the stored value on an object literal,
  \<^verbatim>\<open>undefined\<close> where the property is missing.
\<close>

fun getprop :: "jsval \<Rightarrow> string \<Rightarrow> error + jsval" where
  "getprop VUndefined k = Inl TypeError"
| "getprop VNull k = Inl TypeError"
| "getprop (VObj kvs) k = Inr (case map_of kvs k of None \<Rightarrow> VUndefined | Some v \<Rightarrow> v)"
| "getprop v k = Inr VUndefined"

text \<open>A default parameter value applies when the argument is \<^verbatim>\<open>undefined\<close>.\<close>

definition dflt :: "jsval \<Rightarrow> jsval \<Rightarrow> jsval" where
  "dflt d v = (if v = VUndefined then d else v)"


section \<open>The driver and the helper module, as an environment\<close>

text \<open>
  Everything the controller does is a call into Puppeteer objects or into the helper
  module \<^verbatim>\<open>../include/functions\<close>. A call is either a function of a module
  (\<^verbatim>\<open>Functions.scrollUp(...)\<close>) or a method of a receiver
  (\<^verbatim>\<open>this._page.click(selector)\<close>), with the list of arguments as passed.

  The environment answers a call issued at a logical time in a state of the world with
  the promise it returns (the time at which it settles, and whether it is fulfilled with
  a value or rejected with an error) and the world after the call.
\<close>

datatype call =
    Static string "jsval list"
  | Method jsval string "jsval list"

type_synonym settle = "nat \<times> (error + jsval)"

type_synonym 'w driver = "call \<Rightarrow> nat \<Rightarrow> 'w \<Rightarrow> settle \<times> 'w"

text \<open>
  A method call on \<^verbatim>\<open>null\<close> or \<^verbatim>\<open>undefined\<close> throws a TypeError
  synchronously, before anything reaches the driver (\<open>Inl\<close>); for any other
  receiver the driver answers with a promise.
\<close>

definition invoke ::
  "'w driver \<Rightarrow> jsval \<Rightarrow> string \<Rightarrow> jsval list \<Rightarrow> nat \<Rightarrow> 'w \<Rightarrow> error + (settle \<times> 'w)" where
  "invoke drv recv m args t w =
     (if recv = VUndefined \<or> recv = VNull then Inl TypeError
      else Inr (drv (Method recv m args) t w))"

text \<open>
  An awaited call: the time at which the caller resumes, the outcome, the world.
  A method of the controller: the same, with the controller instance after the call.
  An \<^verbatim>\<open>async\<close> method never throws synchronously: an exception in its body
  rejects the promise it returns.
\<close>

type_synonym 'w step = "nat \<times> (error + jsval) \<times> 'w"

type_synonym 'w run = "nat \<times> (error + jsval) \<times> obj \<times> 'w"

definition await_static :: "'w driver \<Rightarrow> string \<Rightarrow> jsval list \<Rightarrow> nat \<Rightarrow> 'w \<Rightarrow> 'w step" where
  "await_static drv f args t w =
     (case drv (Static f args) t w of ((t1, r), w1) \<Rightarrow> (t1, r, w1))"

definition await_method ::
  "'w driver \<Rightarrow> jsval \<Rightarrow> string \<Rightarrow> jsval list \<Rightarrow> nat \<Rightarrow> 'w \<Rightarrow> 'w step" where
  "await_method drv recv m args t w =
     (case invoke drv recv m args t w of
        Inl e \<Rightarrow> (t, Inl e, w)
      | Inr ((t1, r), w1) \<Rightarrow> (t1, r, w1))"

text \<open>A synchronous call of a helper: the caller continues at once.\<close>

definition call_sync :: "'w driver \<Rightarrow> string \<Rightarrow> jsval list \<Rightarrow> nat \<Rightarrow> 'w \<Rightarrow> 'w step" where
  "call_sync drv f args t w =
     (case drv (Static f args) t w of ((t1, r), w1) \<Rightarrow> (t, r, w1))"

text \<open>
  \<^verbatim>\<open>await e;\<close> as the last statement: the value is dropped and the method
  resolves to \<^verbatim>\<open>undefined\<close>. \<^verbatim>\<open>return await e;\<close> resolves to the value.
\<close>

definition return_void :: "obj \<Rightarrow> 'w step \<Rightarrow> 'w run" where
  "return_void this s =
     (case s of
        (t1, Inl e, w1) \<Rightarrow> (t1, Inl e, this, w1)
      | (t1, Inr v, w1) \<Rightarrow> (t1, Inr VUndefined, this, w1))"

definition return_value :: "obj \<Rightarrow> 'w step \<Rightarrow> 'w run" where
  "return_value this s = (case s of (t1, r, w1) \<Rightarrow> (t1, r, this, w1))"


section \<open>The controller\<close>

definition Puppeteer :: jsval where
  "Puppeteer = VModule ''puppeteer''"

text \<open>\<^verbatim>\<open>constructor(identity, endpoint = null)\<close>\<close>

definition constructor :: "jsval \<Rightarrow> jsval \<Rightarrow> obj" where
  "constructor identity endpoint =
     Map.empty(''_identity'' \<mapsto> identity,
               ''_endpoint'' \<mapsto> dflt VNull endpoint,
               ''_page'' \<mapsto> VNull,
               ''_browser'' \<mapsto> VNull)"

text \<open>\<^verbatim>\<open>async init(executablePath = "")\<close>\<close>

definition init :: "'w driver \<Rightarrow> jsval \<Rightarrow> obj \<Rightarrow> nat \<Rightarrow> 'w \<Rightarrow> 'w run" where
  "init drv executablePath this t w =
     (case await_static drv ''Functions.init''
             [Puppeteer, field this ''_endpoint'', dflt (VStr '''') executablePath] t w of
        (t1, Inl e, w1) \<Rightarrow> (t1, Inl e, this, w1)
      | (t1, Inr ini, w1) \<Rightarrow>
          (case getprop ini ''page'' of
             Inl e \<Rightarrow> (t1, Inl e, this, w1)
           | Inr pg \<Rightarrow>
               (let this1 = this(''_page'' \<mapsto> pg, ''_frame'' \<mapsto> VNull, ''_pages'' \<mapsto> VArr [pg])
                in case getprop ini ''browser'' of
                     Inl e \<Rightarrow> (t1, Inl e, this1, w1)
                   | Inr br \<Rightarrow> (t1, Inr VUndefined, this1(''_browser'' \<mapsto> br), w1))))"

text \<open>
  \<^verbatim>\<open>async focusFrame(url)\<close>. The test \<^verbatim>\<open>frame != null\<close> is the loose
  inequality: it fails for \<^verbatim>\<open>null\<close> and for \<^verbatim>\<open>undefined\<close>.
\<close>

definition focusFrame :: "'w driver \<Rightarrow> jsval \<Rightarrow> obj \<Rightarrow> nat \<Rightarrow> 'w \<Rightarrow> 'w run" where
  "focusFrame drv url this t w =
     (case await_static drv ''Functions.getFrame'' [field this ''_page'', url] t w of
        (t1, Inl e, w1) \<Rightarrow> (t1, Inl e, this, w1)
      | (t1, Inr frame, w1) \<Rightarrow>
          if frame \<noteq> VNull \<and> frame \<noteq> VUndefined
          then (t1, Inr (VBool True), this(''_frame'' \<mapsto> frame), w1)
          else (t1, Inr (VBool False), this, w1))"


text \<open>
  \<^verbatim>\<open>async focusFrameSelector(selector)\<close>. Both tests are strict: only
  \<^verbatim>\<open>null\<close> counts as missing.
\<close>

definition focusFrameSelector :: "'w driver \<Rightarrow> jsval \<Rightarrow> obj \<Rightarrow> nat \<Rightarrow> 'w \<Rightarrow> 'w run" where
  "focusFrameSelector drv selector this t w =
     (case await_method drv (field this ''_page'') ''$'' [selector] t w of
        (t1, Inl e, w1) \<Rightarrow> (t1, Inl e, this, w1)
      | (t1, Inr handle, w1) \<Rightarrow>
          if handle = VNull then (t1, Inr (VBool False), this, w1)
          else (case await_method drv handle ''contentFrame'' [] t1 w1 of
                  (t2, Inl e, w2) \<Rightarrow> (t2, Inl e, this, w2)
                | (t2, Inr frame, w2) \<Rightarrow>
                    (t2, Inr (VBool (frame \<noteq> VNull)), this(''_frame'' \<mapsto> frame), w2)))"

text \<open>
  \<^verbatim>\<open>async type(selector = "", text) { await this.type(selector, text); }\<close>
  The body calls the method itself. The language puts no bound on the depth of calls:
  read so, the call never returns, \<open>None\<close>.
\<close>

partial_function (option) type ::
  "'w driver \<Rightarrow> jsval \<Rightarrow> jsval \<Rightarrow> obj \<Rightarrow> nat \<Rightarrow> 'w \<Rightarrow> 'w run option" where
  "type drv selector text this t w =
     Option.bind (type drv (dflt (VStr '''') selector) text this t w)
       (\<lambda>(t1, r, this1, w1). Some (return_void this1 (t1, r, w1)))"

text \<open>
  An engine bounds the call stack. With room for \<open>n\<close> more nested calls, the innermost
  call of \<^verbatim>\<open>type\<close> finds no room for its own \<^verbatim>\<open>this.type(selector, text)\<close>:
  that call throws a RangeError inside the body, which rejects the promise of the
  innermost call, and every enclosing call, awaiting it, is rejected in turn.
\<close>

fun type_on_stack ::
  "nat \<Rightarrow> 'w driver \<Rightarrow> jsval \<Rightarrow> jsval \<Rightarrow> obj \<Rightarrow> nat \<Rightarrow> 'w \<Rightarrow> 'w run" where
  "type_on_stack 0 drv selector text this t w = (t, Inl RangeError, this, w)"
| "type_on_stack (Suc n) drv selector text this t w =
     (case type_on_stack n drv (dflt (VStr '''') selector) text this t w of
        (t1, r, this1, w1) \<Rightarrow> return_void this1 (t1, r, w1))"

text \<open>
  \<^verbatim>\<open>async typeFrame(selector, text)\<close>. The promise of
  \<^verbatim>\<open>element.click()\<close> is not awaited: only a synchronous TypeError (the element is
  \<^verbatim>\<open>null\<close>) stops the method, a later rejection is lost.
\<close>

definition typeFrame :: "'w driver \<Rightarrow> jsval \<Rightarrow> jsval \<Rightarrow> obj \<Rightarrow> nat \<Rightarrow> 'w \<Rightarrow> 'w run" where
  "typeFrame drv selector text this t w =
     (case await_method drv (field this ''_frame'') ''$'' [selector] t w of
        (t1, Inl e, w1) \<Rightarrow> (t1, Inl e, this, w1)
      | (t1, Inr element, w1) \<Rightarrow>
          (case invoke drv element ''click'' [] t1 w1 of
             Inl e \<Rightarrow> (t1, Inl e, this, w1)
           | Inr (p, w2) \<Rightarrow> return_void this (await_method drv element ''type'' [text] t1 w2)))"

definition typeEnter :: "'w driver \<Rightarrow> obj \<Rightarrow> nat \<Rightarrow> 'w \<Rightarrow> 'w run" where
  "typeEnter drv this t w =
     return_void this (await_static drv ''Functions.typeEnter'' [field this ''_page''] t w)"

text \<open>\<^verbatim>\<open>typeTab(page)\<close> and \<^verbatim>\<open>typeEsc(page)\<close> do not use their parameter.\<close>

definition typeTab :: "'w driver \<Rightarrow> jsval \<Rightarrow> obj \<Rightarrow> nat \<Rightarrow> 'w \<Rightarrow> 'w run" where
  "typeTab drv page this t w =
     return_void this (await_static drv ''Functions.typeTab'' [field this ''_page''] t w)"

definition typeEsc :: "'w driver \<Rightarrow> jsval \<Rightarrow> obj \<Rightarrow> nat \<Rightarrow> 'w \<Rightarrow> 'w run" where
  "typeEsc drv page this t w =
     return_void this (await_static drv ''Functions.typeEsc'' [field this ''_page''] t w)"

text \<open>
  \<^verbatim>\<open>async click(selector, delay = true, tap = false, topRight = false, doTrigger = false)\<close>
  The body is \<^verbatim>\<open>await this._page.click(selector);\<close> and nothing else.
\<close>

definition click ::
  "'w driver \<Rightarrow> jsval \<Rightarrow> jsval \<Rightarrow> jsval \<Rightarrow> jsval \<Rightarrow> jsval \<Rightarrow> obj \<Rightarrow> nat \<Rightarrow> 'w \<Rightarrow> 'w run" where
  "click drv selector delay tap topRight doTrigger this t w =
     return_void this (await_method drv (field this ''_page'') ''click'' [selector] t w)"

definition waitForNavigation :: "'w driver \<Rightarrow> obj \<Rightarrow> nat \<Rightarrow> 'w \<Rightarrow> 'w run" where
  "waitForNavigation drv this t w =
     return_void this (await_method drv (field this ''_page'') ''waitForNavigation'' [] t w)"

text \<open>
  \<^verbatim>\<open>Promise.all\<close> over promises that were all issued already: it rejects as soon as
  one of them rejects (the earliest rejection, the first of the list among simultaneous
  ones), and otherwise is fulfilled when the last of them is, with the list of values.
\<close>

fun first_rejection :: "settle list \<Rightarrow> (nat \<times> error) option" where
  "first_rejection [] = None"
| "first_rejection ((t, Inr v) # ps) = first_rejection ps"
| "first_rejection ((t, Inl e) # ps) =
     (case first_rejection ps of
        None \<Rightarrow> Some (t, e)
      | Some (t', e') \<Rightarrow> if t \<le> t' then Some (t, e) else Some (t', e'))"

fun fulfilled_values :: "settle list \<Rightarrow> jsval list" where
  "fulfilled_values [] = []"
| "fulfilled_values ((t, Inr v) # ps) = v # fulfilled_values ps"
| "fulfilled_values ((t, Inl e) # ps) = fulfilled_values ps"

definition promise_all :: "nat \<Rightarrow> settle list \<Rightarrow> settle" where
  "promise_all t ps =
     (case first_rejection ps of
        Some (tr, e) \<Rightarrow> (tr, Inl e)
      | None \<Rightarrow> (fold max (map fst ps) t, Inr (VArr (fulfilled_values ps))))"

definition await_all :: "nat \<Rightarrow> settle list \<Rightarrow> 'w \<Rightarrow> 'w step" where
  "await_all t ps w = (case promise_all t ps of (ta, r) \<Rightarrow> (ta, r, w))"

text \<open>
  \<^verbatim>\<open>async clickAndWait(selector, delay = true, tap = false, topRight = false, doTrigger = false)\<close>
  Both \<^verbatim>\<open>this.click(selector)\<close> and \<^verbatim>\<open>this.waitForNavigation()\<close> are called
  while the array is built, at the time of the call, before anything is awaited.
\<close>

definition clickAndWait ::
  "'w driver \<Rightarrow> jsval \<Rightarrow> jsval \<Rightarrow> jsval \<Rightarrow> jsval \<Rightarrow> jsval \<Rightarrow> obj \<Rightarrow> nat \<Rightarrow> 'w \<Rightarrow> 'w run" where
  "clickAndWait drv selector delay tap topRight doTrigger this t w =
     (case click drv selector VUndefined VUndefined VUndefined VUndefined this t w of
        (tc, rc, this1, wc) \<Rightarrow>
          (case waitForNavigation drv this1 t wc of
             (tn, rn, this2, wn) \<Rightarrow>
               return_void this2 (await_all t [(tc, rc), (tn, rn)] wn)))"

text \<open>
  \<^verbatim>\<open>async clickFrame(selector)\<close>: the method runs up to
  \<^verbatim>\<open>await this._frame.$(selector)\<close>, and resumes when that promise has settled
  with \<^verbatim>\<open>element.click()\<close>, which is not awaited.
\<close>

definition clickFrame_resume :: "'w driver \<Rightarrow> obj \<Rightarrow> 'w step \<Rightarrow> 'w run" where
  "clickFrame_resume drv this s =
     (case s of
        (t1, Inl e, w1) \<Rightarrow> (t1, Inl e, this, w1)
      | (t1, Inr element, w1) \<Rightarrow>
          (case invoke drv element ''click'' [] t1 w1 of
             Inl e \<Rightarrow> (t1, Inl e, this, w1)
           | Inr (p, w2) \<Rightarrow> (t1, Inr VUndefined, this, w2)))"

definition clickFrame :: "'w driver \<Rightarrow> jsval \<Rightarrow> obj \<Rightarrow> nat \<Rightarrow> 'w \<Rightarrow> 'w run" where
  "clickFrame drv selector this t w =
     clickFrame_resume drv this (await_method drv (field this ''_frame'') ''$'' [selector] t w)"

text \<open>
  \<^verbatim>\<open>async clickFrameAndWait(selector)\<close>: \<^verbatim>\<open>this.clickFrame(selector)\<close> runs
  up to its \<^verbatim>\<open>await\<close>, then \<^verbatim>\<open>this._page.waitForNavigation()\<close> is issued,
  still at the time of the call, and \<^verbatim>\<open>clickFrame\<close> resumes afterwards. A
  TypeError on \<^verbatim>\<open>this._page\<close> rejects the method at once; the pending
  \<^verbatim>\<open>clickFrame\<close> still runs to its end, and the world returned is the one it
  leaves.
\<close>

definition clickFrameAndWait :: "'w driver \<Rightarrow> jsval \<Rightarrow> obj \<Rightarrow> nat \<Rightarrow> 'w \<Rightarrow> 'w run" where
  "clickFrameAndWait drv selector this t w =
     (case await_method drv (field this ''_frame'') ''$'' [selector] t w of
        (t1, r1, w1) \<Rightarrow>
          (case invoke drv (field this ''_page'') ''waitForNavigation'' [] t w1 of
             Inl e \<Rightarrow>
               (case clickFrame_resume drv this (t1, r1, w1) of
                  (tc, rc, this1, wc) \<Rightarrow> (t, Inl e, this1, wc))
           | Inr ((tn, rn), wn) \<Rightarrow>
               (case clickFrame_resume drv this (t1, r1, wn) of
                  (tc, rc, this1, wc) \<Rightarrow>
                    return_void this1 (await_all t [(tc, rc), (tn, rn)] wc))))"

definition hover :: "'w driver \<Rightarrow> jsval \<Rightarrow> obj \<Rightarrow> nat \<Rightarrow> 'w \<Rightarrow> 'w run" where
  "hover drv selector this t w =
     return_void this (await_method drv (field this ''_page'') ''hover'' [selector] t w)"

text \<open>
  \<^verbatim>\<open>async waitForSelector(selector, doThrow = false)\<close>: the helper is awaited and
  its value is not returned.
\<close>

definition waitForSelector :: "'w driver \<Rightarrow> jsval \<Rightarrow> jsval \<Rightarrow> obj \<Rightarrow> nat \<Rightarrow> 'w \<Rightarrow> 'w run" where
  "waitForSelector drv selector doThrow this t w =
     return_void this
       (await_static drv ''Functions.waitForSelector''
          [field this ''_page'', selector, dflt (VBool False) doThrow] t w)"

definition select :: "'w driver \<Rightarrow> jsval \<Rightarrow> jsval \<Rightarrow> obj \<Rightarrow> nat \<Rightarrow> 'w \<Rightarrow> 'w run" where
  "select drv selector v this t w =
     return_void this (await_method drv (field this ''_page'') ''select'' [selector, v] t w)"

definition selectFrame :: "'w driver \<Rightarrow> jsval \<Rightarrow> jsval \<Rightarrow> obj \<Rightarrow> nat \<Rightarrow> 'w \<Rightarrow> 'w run" where
  "selectFrame drv selector v this t w =
     return_void this (await_method drv (field this ''_frame'') ''select'' [selector, v] t w)"

text \<open>\<^verbatim>\<open>async goto(url, options = {})\<close>\<close>

definition goto :: "'w driver \<Rightarrow> jsval \<Rightarrow> jsval \<Rightarrow> obj \<Rightarrow> nat \<Rightarrow> 'w \<Rightarrow> 'w run" where
  "goto drv url options this t w =
     return_void this
       (await_method drv (field this ''_page'') ''goto'' [url, dflt (VObj []) options] t w)"

text \<open>\<^verbatim>\<open>async randomWait(time = 2000, random = 1000)\<close> waits for \<^verbatim>\<open>time\<close>.\<close>

definition randomWait :: "'w driver \<Rightarrow> jsval \<Rightarrow> jsval \<Rightarrow> obj \<Rightarrow> nat \<Rightarrow> 'w \<Rightarrow> 'w run" where
  "randomWait drv time random this t w =
     return_void this
       (await_method drv (field this ''_page'') ''waitForTimeout'' [dflt (VNum 2000) time] t w)"

text \<open>\<^verbatim>\<open>async logScreenshot(text = "", fullPage = false)\<close>\<close>

definition logScreenshot :: "'w driver \<Rightarrow> jsval \<Rightarrow> jsval \<Rightarrow> obj \<Rightarrow> nat \<Rightarrow> 'w \<Rightarrow> 'w run" where
  "logScreenshot drv text fullPage this t w =
     return_void this
       (await_static drv ''Functions.logScreenshot''
          [field this ''_page'', dflt (VStr '''') text, dflt (VBool False) fullPage] t w)"

definition isSelectorVisible :: "'w driver \<Rightarrow> jsval \<Rightarrow> obj \<Rightarrow> nat \<Rightarrow> 'w \<Rightarrow> 'w run" where
  "isSelectorVisible drv selector this t w =
     return_value this
       (await_static drv ''Functions.isSelectorVisible'' [field this ''_page'', selector] t w)"

text \<open>\<^verbatim>\<open>async scrollToSelector(stopSelector, wait = true)\<close>\<close>

definition scrollToSelector :: "'w driver \<Rightarrow> jsval \<Rightarrow> jsval \<Rightarrow> obj \<Rightarrow> nat \<Rightarrow> 'w \<Rightarrow> 'w run" where
  "scrollToSelector drv stopSelector wait this t w =
     return_void this
       (await_static drv ''Functions.scrollToSelector''
          [field this ''_page'', stopSelector, dflt (VBool True) wait] t w)"

definition scrollToBottom :: "'w driver \<Rightarrow> obj \<Rightarrow> nat \<Rightarrow> 'w \<Rightarrow> 'w run" where
  "scrollToBottom drv this t w =
     (case await_static drv ''Functions.getBottomSelector'' [field this ''_page''] t w of
        (t1, Inl e, w1) \<Rightarrow> (t1, Inl e, this, w1)
      | (t1, Inr bottomSelector, w1) \<Rightarrow>
          return_void this
            (await_static drv ''Functions.scrollDown'' [field this ''_page'', bottomSelector] t1 w1))"

text \<open>
  \<^verbatim>\<open>async scrollUp(stopSelector, wait = true, press = false, minScrolls = 11, maxScrolls = 15)\<close>
\<close>

definition scrollUp ::
  "'w driver \<Rightarrow> jsval \<Rightarrow> jsval \<Rightarrow> jsval \<Rightarrow> jsval \<Rightarrow> jsval \<Rightarrow> obj \<Rightarrow> nat \<Rightarrow> 'w \<Rightarrow> 'w run" where
  "scrollUp drv stopSelector wait press minScrolls maxScrolls this t w =
     return_void this
       (await_static drv ''Functions.scrollUp''
          [field this ''_page'', stopSelector, dflt (VBool True) wait, dflt (VBool False) press,
           dflt (VNum 11) minScrolls, dflt (VNum 15) maxScrolls] t w)"

text \<open>
  \<^verbatim>\<open>async scrollDown(stopSelector, wait = true, press = false, minScrolls = 11,
  maxScrolls = 15, minIterations = 0)\<close> with the body
  \<^verbatim>\<open>await Functions.scrollDown(this._page, wait, press, minScrolls, maxScrolls, minIterations);\<close>
\<close>

definition scrollDown ::
  "'w driver \<Rightarrow> jsval \<Rightarrow> jsval \<Rightarrow> jsval \<Rightarrow> jsval \<Rightarrow> jsval \<Rightarrow> jsval \<Rightarrow> obj \<Rightarrow> nat \<Rightarrow> 'w
     \<Rightarrow> 'w run" where
  "scrollDown drv stopSelector wait press minScrolls maxScrolls minIterations this t w =
     return_void this
       (await_static drv ''Functions.scrollDown''
          [field this ''_page'', dflt (VBool True) wait, dflt (VBool False) press,
           dflt (VNum 11) minScrolls, dflt (VNum 15) maxScrolls, dflt (VNum 0) minIterations]
          t w)"

definition setValue :: "'w driver \<Rightarrow> jsval \<Rightarrow> jsval \<Rightarrow> obj \<Rightarrow> nat \<Rightarrow> 'w \<Rightarrow> 'w run" where
  "setValue drv selector text this t w =
     return_void this
       (await_static drv ''Functions.setValue'' [field this ''_page'', selector, text] t w)"

text \<open>\<^verbatim>\<open>async deactivateLink(page, selector)\<close> does not use \<^verbatim>\<open>page\<close>.\<close>

definition deactivateLink :: "'w driver \<Rightarrow> jsval \<Rightarrow> jsval \<Rightarrow> obj \<Rightarrow> nat \<Rightarrow> 'w \<Rightarrow> 'w run" where
  "deactivateLink drv page selector this t w =
     return_void this
       (await_static drv ''Functions.deactivateLink'' [field this ''_page'', selector] t w)"

definition getHref :: "'w driver \<Rightarrow> jsval \<Rightarrow> obj \<Rightarrow> nat \<Rightarrow> 'w \<Rightarrow> 'w run" where
  "getHref drv selector this t w =
     return_value this
       (await_static drv ''Functions.getHref'' [field this ''_page'', selector] t w)"

text \<open>The three random helpers are synchronous methods.\<close>

definition getRandomTime :: "'w driver \<Rightarrow> jsval \<Rightarrow> jsval \<Rightarrow> obj \<Rightarrow> nat \<Rightarrow> 'w \<Rightarrow> 'w run" where
  "getRandomTime drv time random this t w =
     return_value this (call_sync drv ''Functions.getRandomTime'' [time, random] t w)"

text \<open>\<^verbatim>\<open>getRandomNumber(to, from = 0)\<close>\<close>

definition getRandomNumber :: "'w driver \<Rightarrow> jsval \<Rightarrow> jsval \<Rightarrow> obj \<Rightarrow> nat \<Rightarrow> 'w \<Rightarrow> 'w run" where
  "getRandomNumber drv to from this t w =
     return_value this
       (call_sync drv ''Functions.getRandomNumber'' [to, dflt (VNum 0) from] t w)"

text \<open>\<^verbatim>\<open>getRandomBoolean(truePercent = 0.5)\<close>\<close>

definition getRandomBoolean :: "'w driver \<Rightarrow> jsval \<Rightarrow> obj \<Rightarrow> nat \<Rightarrow> 'w \<Rightarrow> 'w run" where
  "getRandomBoolean drv truePercent this t w =
     return_value this
       (call_sync drv ''Functions.getRandomBoolean'' [dflt (VNum (1 / 2)) truePercent] t w)"

definition goBack :: "'w driver \<Rightarrow> obj \<Rightarrow> nat \<Rightarrow> 'w \<Rightarrow> 'w run" where
  "goBack drv this t w =
     return_void this (await_method drv (field this ''_page'') ''goBack'' [] t w)"

definition getPage :: "obj \<Rightarrow> nat \<Rightarrow> 'w \<Rightarrow> 'w run" where
  "getPage this t w = (t, Inr (field this ''_page''), this, w)"

definition getFrame :: "obj \<Rightarrow> nat \<Rightarrow> 'w \<Rightarrow> 'w run" where
  "getFrame this t w = (t, Inr (field this ''_frame''), this, w)"

definition getIdentity :: "obj \<Rightarrow> nat \<Rightarrow> 'w \<Rightarrow> 'w run" where
  "getIdentity this t w = (t, Inr (field this ''_identity''), this, w)"

definition solveCaptcha :: "'w driver \<Rightarrow> jsval \<Rightarrow> obj \<Rightarrow> nat \<Rightarrow> 'w \<Rightarrow> 'w run" where
  "solveCaptcha drv selector this t w =
     return_value this
       (await_static drv ''Functions.solveCaptcha'' [field this ''_page'', selector] t w)"

text \<open>
  \<^verbatim>\<open>async solveRecaptcha(selector)\<close> reads \<^verbatim>\<open>this._iframe\<close>.
\<close>

definition solveRecaptcha :: "'w driver \<Rightarrow> jsval \<Rightarrow> obj \<Rightarrow> nat \<Rightarrow> 'w \<Rightarrow> 'w run" where
  "solveRecaptcha drv selector this t w =
     return_value this
       (await_static drv ''Functions.solveRecaptcha'' [field this ''_iframe'', selector] t w)"


section \<open>Sequences of operations\<close>

text \<open>The public operations of the controller, with their arguments.\<close>

datatype op =
    Init jsval
  | FocusFrame jsval
  | FocusFrameSelector jsval
  | Type jsval jsval
  | TypeFrame jsval jsval
  | TypeEnter
  | TypeTab jsval
  | TypeEsc jsval
  | Click jsval jsval jsval jsval jsval
  | ClickAndWait jsval jsval jsval jsval jsval
  | ClickFrame jsval
  | ClickFrameAndWait jsval
  | Hover jsval
  | WaitForSelector jsval jsval
  | Select jsval jsval
  | SelectFrame jsval jsval
  | Goto jsval jsval
  | RandomWait jsval jsval
  | WaitForNavigation
  | LogScreenshot jsval jsval
  | IsSelectorVisible jsval
  | ScrollToSelector jsval jsval
  | ScrollToBottom
  | ScrollUp jsval jsval jsval jsval jsval
  | ScrollDown jsval jsval jsval jsval jsval jsval
  | SetValue jsval jsval
  | DeactivateLink jsval jsval
  | GetHref jsval
  | GetRandomTime jsval jsval
  | GetRandomNumber jsval jsval
  | GetRandomBoolean jsval
  | GoBack
  | GetPage
  | GetFrame
  | GetIdentity
  | SolveCaptcha jsval
  | SolveRecaptcha jsval

text \<open>
  One operation, on an engine whose call stack has room for \<open>stack\<close> nested calls.
\<close>

fun exec :: "'w driver \<Rightarrow> nat \<Rightarrow> op \<Rightarrow> obj \<Rightarrow> nat \<Rightarrow> 'w \<Rightarrow> 'w run" where
  "exec drv stack (Init p) this t w = init drv p this t w"
| "exec drv stack (FocusFrame u) this t w = focusFrame drv u this t w"
| "exec drv stack (FocusFrameSelector s) this t w = focusFrameSelector drv s this t w"
| "exec drv stack (Type s x) this t w = type_on_stack stack drv s x this t w"
| "exec drv stack (TypeFrame s x) this t w = typeFrame drv s x this t w"
| "exec drv stack TypeEnter this t w = typeEnter drv this t w"
| "exec drv stack (TypeTab p) this t w = typeTab drv p this t w"
| "exec drv stack (TypeEsc p) this t w = typeEsc drv p this t w"
| "exec drv stack (Click s d tp tr dt) this t w = click drv s d tp tr dt this t w"
| "exec drv stack (ClickAndWait s d tp tr dt) this t w = clickAndWait drv s d tp tr dt this t w"
| "exec drv stack (ClickFrame s) this t w = clickFrame drv s this t w"
| "exec drv stack (ClickFrameAndWait s) this t w = clickFrameAndWait drv s this t w"
| "exec drv stack (Hover s) this t w = hover drv s this t w"
| "exec drv stack (WaitForSelector s d) this t w = waitForSelector drv s d this t w"
| "exec drv stack (Select s v) this t w = select drv s v this t w"
| "exec drv stack (SelectFrame s v) this t w = selectFrame drv s v this t w"
| "exec drv stack (Goto u opts) this t w = goto drv u opts this t w"
| "exec drv stack (RandomWait tm rnd) this t w = randomWait drv tm rnd this t w"
| "exec drv stack WaitForNavigation this t w = waitForNavigation drv this t w"
| "exec drv stack (LogScreenshot x f) this t w = logScreenshot drv x f this t w"
| "exec drv stack (IsSelectorVisible s) this t w = isSelectorVisible drv s this t w"
| "exec drv stack (ScrollToSelector s wt) this t w = scrollToSelector drv s wt this t w"
| "exec drv stack ScrollToBottom this t w = scrollToBottom drv this t w"
| "exec drv stack (ScrollUp s wt pr mn mx) this t w = scrollUp drv s wt pr mn mx this t w"
| "exec drv stack (ScrollDown s wt pr mn mx mi) this t w = scrollDown drv s wt pr mn mx mi this t w"
| "exec drv stack (SetValue s x) this t w = setValue drv s x this t w"
| "exec drv stack (DeactivateLink p s) this t w = deactivateLink drv p s this t w"
| "exec drv stack (GetHref s) this t w = getHref drv s this t w"
| "exec drv stack (GetRandomTime tm rnd) this t w = getRandomTime drv tm rnd this t w"
| "exec drv stack (GetRandomNumber to from) this t w = getRandomNumber drv to from this t w"
| "exec drv stack (GetRandomBoolean p) this t w = getRandomBoolean drv p this t w"
| "exec drv stack GoBack this t w = goBack drv this t w"
| "exec drv stack GetPage this t w = getPage this t w"
| "exec drv stack GetFrame this t w = getFrame this t w"
| "exec drv stack GetIdentity this t w = getIdentity this t w"
| "exec drv stack (SolveCaptcha s) this t w = solveCaptcha drv s this t w"
| "exec drv stack (SolveRecaptcha s) this t w = solveRecaptcha drv s this t w"

text \<open>
  A caller runs operations one after the other, each issued when the one before has
  settled, whether it was fulfilled or rejected.
\<close>

fun run_ops :: "'w driver \<Rightarrow> nat \<Rightarrow> op list \<Rightarrow> obj \<Rightarrow> nat \<Rightarrow> 'w \<Rightarrow> obj \<times> nat \<times> 'w" where
  "run_ops drv stack [] this t w = (this, t, w)"
| "run_ops drv stack (x # xs) this t w =
     (case exec drv stack x this t w of
        (t1, r, this1, w1) \<Rightarrow> run_ops drv stack xs this1 t1 w1)"

text \<open>The parts of the result of a method.\<close>

definition settled_at :: "'w run \<Rightarrow> nat" where
  "settled_at x = fst x"

definition outcome :: "'w run \<Rightarrow> error + jsval" where
  "outcome x = fst (snd x)"

definition this_after :: "'w run \<Rightarrow> obj" where
  "this_after x = fst (snd (snd x))"

definition world_after :: "'w run \<Rightarrow> 'w" where
  "world_after x = snd (snd (snd x))"


section \<open>The helpers of \<^verbatim>\<open>../include/functions\<close>\<close>

text \<open>
  Modelled from the spec: \<^verbatim>\<open>Functions.getFrame(page, url)\<close>, whose file
  \<^verbatim>\<open>src/include/functions.js\<close> is not among the sources. The spec: it "scans the
  current page's frame tree for a frame whose URL starts with \<^verbatim>\<open>urlPrefix\<close>";
  the controller's documentation: the frame when found, \<^verbatim>\<open>null\<close> otherwise. The
  frames of the page at the time of the call are given in the order of the scan, each
  with its handle and its URL.
\<close>

definition getFrame_spec :: "(nat \<times> string) list \<Rightarrow> string \<Rightarrow> jsval" where
  "getFrame_spec frames urlPrefix =
     (case find (\<lambda>f. prefix urlPrefix (snd f)) frames of
        None \<Rightarrow> VNull
      | Some f \<Rightarrow> VRef (fst f))"

text \<open>
  Modelled from the spec: \<^verbatim>\<open>Functions.waitForSelector(page, selector, doThrow)\<close>,
  of the same missing file. The spec: it "polls for element presence up to a bounded
  timeout; dual failure policy: if \<^verbatim>\<open>doThrow\<close> is true, propagates
  \<^verbatim>\<open>ElementNotFoundError\<close>; otherwise returns \<^verbatim>\<open>false\<close> and swallows the
  timeout, giving the caller a non-throwing existence check". \<open>appeared\<close> says
  whether the element was present before the timeout.
\<close>

definition waitForSelector_spec :: "bool \<Rightarrow> jsval \<Rightarrow> error + jsval" where
  "waitForSelector_spec appeared doThrow =
     (if appeared then Inr (VBool True)
      else if doThrow = VBool True then Inl ElementNotFoundError
      else Inr (VBool False))"


section \<open>Three drivers to run the controller on\<close>

text \<open>
  The drivers keep the list of the calls they received as their world. The first
  answers every call with success: \<^verbatim>\<open>Functions.init\<close> opens page 1 in browser 0,
  the page has the two frames below, no selector ever appears for
  \<^verbatim>\<open>Functions.waitForSelector\<close>, a click takes 5 time units and a navigation 20,
  and every selector but \<^verbatim>\<open>#missing\<close> has an element.
\<close>

definition demo_frames :: "(nat \<times> string) list" where
  "demo_frames = [(2, ''https://example.org/ads''), (3, ''https://captcha.example/challenge'')]"

definition demo_answer :: "call \<Rightarrow> nat \<Rightarrow> settle" where
  "demo_answer c t =
     (case c of
        Static f args \<Rightarrow>
          if f = ''Functions.init''
          then (t + 1, Inr (VObj [(''page'', VRef 1), (''browser'', VRef 0)]))
          else if f = ''Functions.getFrame''
          then (t, Inr (case args of
                          [pg, VStr u] \<Rightarrow> getFrame_spec demo_frames u
                        | _ \<Rightarrow> VNull))
          else if f = ''Functions.waitForSelector''
          then (t + 30000, (case args of
                              [pg, sel, doThrow] \<Rightarrow> waitForSelector_spec False doThrow
                            | _ \<Rightarrow> Inr VUndefined))
          else (t, Inr VUndefined)
      | Method recv m args \<Rightarrow>
          if m = ''click'' then (t + 5, Inr VUndefined)
          else if m = ''waitForNavigation'' then (t + 20, Inr VNull)
          else if m = ''$''
          then (t + 1, Inr (if args = [VStr ''#missing''] then VNull else VRef 9))
          else (t, Inr VUndefined))"

definition demo_drv :: "call list driver" where
  "demo_drv c t w = (demo_answer c t, w @ [c])"

text \<open>
  The second driver rejects every click, the element being gone, and the third rejects
  every call, the page being closed.
\<close>

definition detached_drv :: "call list driver" where
  "detached_drv c t w =
     (case c of
        Method recv m args \<Rightarrow>
          if m = ''click''
          then ((t + 3, Inl (DriverError ''Node is detached from document'')), w @ [c])
          else if m = ''$'' then ((t + 1, Inr (VRef 9)), w @ [c])
          else ((t, Inr VUndefined), w @ [c])
      | Static f args \<Rightarrow> ((t, Inr VUndefined), w @ [c]))"

definition closed_drv :: "call list driver" where
  "closed_drv c t w = ((t + 2, Inl (DriverError ''Target closed'')), w @ [c])"

text \<open>
  The controller as \<^verbatim>\<open>init\<close> leaves it on the first driver, and the same
  controller with frame 3 focused.
\<close>

definition ready :: obj where
  "ready = (constructor (VRef 100) VUndefined)
             (''_page'' \<mapsto> VRef 1, ''_frame'' \<mapsto> VNull, ''_pages'' \<mapsto> VArr [VRef 1],
              ''_browser'' \<mapsto> VRef 0)"

definition focused :: obj where
  "focused = ready(''_frame'' \<mapsto> VRef 3)"


section \<open>Loading the module\<close>

text \<open>
  The top level of \<^verbatim>\<open>simplecontroller.js\<close> is four statements: two
  \<^verbatim>\<open>const ... = require(...)\<close>, the class declaration, and
  \<^verbatim>\<open>module.exports = Controller;\<close>. An identifier is looked up in the scope of
  the module, then among the globals; an identifier bound nowhere is a ReferenceError.
\<close>

datatype stmt =
    ConstRequire string string
  | ClassDecl string
  | ExportsAssign string

record module_state =
  scope :: "(string \<times> jsval) list"
  exports :: jsval

definition lookup :: "(string \<rightharpoonup> jsval) \<Rightarrow> (string \<times> jsval) list \<Rightarrow> string \<Rightarrow> error + jsval" where
  "lookup globals sc x =
     (case map_of sc x of
        Some v \<Rightarrow> Inr v
      | None \<Rightarrow> (case globals x of Some v \<Rightarrow> Inr v | None \<Rightarrow> Inl (ReferenceError x)))"

fun eval_stmt ::
  "(string \<Rightarrow> error + jsval) \<Rightarrow> (string \<rightharpoonup> jsval) \<Rightarrow> stmt \<Rightarrow> module_state
     \<Rightarrow> error + module_state" where
  "eval_stmt req globals (ConstRequire x path) m =
     (case req path of
        Inl e \<Rightarrow> Inl e
      | Inr v \<Rightarrow> Inr (m\<lparr>scope := (x, v) # scope m\<rparr>))"
| "eval_stmt req globals (ClassDecl c) m = Inr (m\<lparr>scope := (c, VClass c) # scope m\<rparr>)"
| "eval_stmt req globals (ExportsAssign x) m =
     (case lookup globals (scope m) x of
        Inl e \<Rightarrow> Inl e
      | Inr v \<Rightarrow> Inr (m\<lparr>exports := v\<rparr>))"

fun eval_stmts ::
  "(string \<Rightarrow> error + jsval) \<Rightarrow> (string \<rightharpoonup> jsval) \<Rightarrow> stmt list \<Rightarrow> module_state
     \<Rightarrow> error + module_state" where
  "eval_stmts req globals [] m = Inr m"
| "eval_stmts req globals (s # ss) m =
     (case eval_stmt req globals s m of
        Inl e \<Rightarrow> Inl e
      | Inr m' \<Rightarrow> eval_stmts req globals ss m')"

text \<open>
  \<^verbatim>\<open>require\<close> of a module: its statements run from an empty scope with
  \<^verbatim>\<open>module.exports = {}\<close>; the value of the \<^verbatim>\<open>require\<close> is
  \<^verbatim>\<open>module.exports\<close> at the end, or the error thrown on the way.
\<close>

definition load_module ::
  "(string \<Rightarrow> error + jsval) \<Rightarrow> (string \<rightharpoonup> jsval) \<Rightarrow> stmt list \<Rightarrow> error + jsval" where
  "load_module req globals ss =
     (case eval_stmts req globals ss \<lparr>scope = [], exports = VObj []\<rparr> of
        Inl e \<Rightarrow> Inl e
      | Inr m \<Rightarrow> Inr (exports m))"

definition simplecontroller_js :: "stmt list" where
  "simplecontroller_js =
     [ConstRequire ''Functions'' ''../include/functions'',
      ConstRequire ''Puppeteer'' ''puppeteer'',
      ClassDecl ''SimpleController'',
      ExportsAssign ''Controller'']"

text \<open>Both required modules are found.\<close>

definition require_ok :: "string \<Rightarrow> error + jsval" where
  "require_ok path = Inr (VModule path)"


section \<open>Basic facts\<close>

lemma return_void_simps:
  "return_void this (t1, Inl e, w1) = (t1, Inl e, this, w1)"
  "return_void this (t1, Inr v, w1) = (t1, Inr VUndefined, this, w1)"
  by (simp_all add: return_void_def)

lemma this_after_return_void: "this_after (return_void this s) = this"
  by (auto simp: return_void_def this_after_def split: prod.splits sum.splits)

lemma this_after_return_value: "this_after (return_value this s) = this"
  by (auto simp: return_value_def this_after_def split: prod.splits)

lemma this_after_tuple: "this_after (t, r, this, w) = this"
  by (simp add: this_after_def)

lemma outcome_tuple: "outcome (t, r, this, w) = r"
  by (simp add: outcome_def)

lemma type_diverges: "type drv selector text this t w = None"
proof (cases "type drv selector text this t w")
  case (Some y)
  have False
    by (rule type.raw_induct [where P = "\<lambda>_ _ _ _ _ _ _. False", OF _ Some])
       (auto simp: bind_eq_Some_conv)
  then show ?thesis ..
qed simp

lemma invoke_unfocused:
  "recv = VNull \<or> recv = VUndefined \<Longrightarrow> invoke drv recv m args t w = Inl TypeError"
  by (auto simp: invoke_def)

lemma await_method_unfocused:
  "recv = VNull \<or> recv = VUndefined \<Longrightarrow> await_method drv recv m args t w = (t, Inl TypeError, w)"
  by (simp add: await_method_def invoke_unfocused)

lemma await_method_ref:
  "await_method drv (VRef f) m args t w =
     (case drv (Method (VRef f) m args) t w of ((t1, r), w1) \<Rightarrow> (t1, r, w1))"
  by (simp add: await_method_def invoke_def split: prod.splits)

section \<open>Frame-scoped operations\<close>

text \<open>
  C1, as the code has it. \<^verbatim>\<open>typeFrame\<close>, \<^verbatim>\<open>clickFrame\<close> and
  \<^verbatim>\<open>selectFrame\<close> called when no frame is focused (\<^verbatim>\<open>_frame\<close> is
  \<^verbatim>\<open>null\<close> after \<^verbatim>\<open>init\<close>, \<^verbatim>\<open>undefined\<close> before) are rejected with
  a TypeError at once, nothing reaches the driver and the controller is unchanged. The
  controller keeps no epoch and raises no error of its own for a stale handle: when a
  frame handle is stored, the operation is issued on that handle in whatever state the
  world is. \<^verbatim>\<open>selectFrame\<close> then settles as \<^verbatim>\<open>frame.select\<close> does.
  \<^verbatim>\<open>clickFrame\<close> and \<^verbatim>\<open>typeFrame\<close> first await
  \<^verbatim>\<open>frame.$(selector)\<close>: rejected, they are rejected with the same error; given
  \<^verbatim>\<open>null\<close> or \<^verbatim>\<open>undefined\<close>, they are rejected with a TypeError; given an
  element handle, \<^verbatim>\<open>clickFrame\<close> issues \<^verbatim>\<open>element.click()\<close> without
  awaiting it and is fulfilled with \<^verbatim>\<open>undefined\<close> whatever becomes of the click,
  and \<^verbatim>\<open>typeFrame\<close> issues the same click, not awaited, and then settles as
  \<^verbatim>\<open>element.type(text)\<close> does.
\<close>

theorem frame_ops_unfocused_or_stale:
  "(field this ''_frame'' = VNull \<or> field this ''_frame'' = VUndefined \<longrightarrow>
        typeFrame drv selector txt this t w = (t, Inl TypeError, this, w)
      \<and> clickFrame drv selector this t w = (t, Inl TypeError, this, w)
      \<and> selectFrame drv selector v this t w = (t, Inl TypeError, this, w))
   \<and> (field this ''_frame'' = VRef f \<longrightarrow>
        selectFrame drv selector v this t w =
          return_void this
            (case drv (Method (VRef f) ''select'' [selector, v]) t w of
               ((ts, r), ws) \<Rightarrow> (ts, r, ws))
      \<and> (drv (Method (VRef f) ''$'' [selector]) t w = ((tq, Inl e), wq) \<longrightarrow>
            clickFrame drv selector this t w = (tq, Inl e, this, wq)
          \<and> typeFrame drv selector txt this t w = (tq, Inl e, this, wq))
      \<and> (drv (Method (VRef f) ''$'' [selector]) t w = ((tq, Inr VNull), wq)
          \<or> drv (Method (VRef f) ''$'' [selector]) t w = ((tq, Inr VUndefined), wq) \<longrightarrow>
            clickFrame drv selector this t w = (tq, Inl TypeError, this, wq)
          \<and> typeFrame drv selector txt this t w = (tq, Inl TypeError, this, wq))
      \<and> (drv (Method (VRef f) ''$'' [selector]) t w = ((tq, Inr (VRef el)), wq) \<longrightarrow>
            clickFrame drv selector this t w =
              (tq, Inr VUndefined, this, snd (drv (Method (VRef el) ''click'' []) tq wq))
          \<and> typeFrame drv selector txt this t w =
              return_void this
                (case drv (Method (VRef el) ''type'' [txt]) tq
                        (snd (drv (Method (VRef el) ''click'' []) tq wq)) of
                   ((tt, r), wt) \<Rightarrow> (tt, r, wt))))"
proof (intro conjI impI)
  assume h: "field this ''_frame'' = VNull \<or> field this ''_frame'' = VUndefined"
  show "typeFrame drv selector txt this t w = (t, Inl TypeError, this, w)"
    by (simp add: typeFrame_def await_method_unfocused [OF h])
  show "clickFrame drv selector this t w = (t, Inl TypeError, this, w)"
    by (simp add: clickFrame_def clickFrame_resume_def await_method_unfocused [OF h])
  show "selectFrame drv selector v this t w = (t, Inl TypeError, this, w)"
    by (simp add: selectFrame_def await_method_unfocused [OF h] return_void_simps)
next
  assume h: "field this ''_frame'' = VRef f"
  show "selectFrame drv selector v this t w =
          return_void this
            (case drv (Method (VRef f) ''select'' [selector, v]) t w of
               ((ts, r), ws) \<Rightarrow> (ts, r, ws))"
    by (simp add: selectFrame_def h await_method_ref)
next
  assume h: "field this ''_frame'' = VRef f"
    and q: "drv (Method (VRef f) ''$'' [selector]) t w = ((tq, Inl e), wq)"
  show "clickFrame drv selector this t w = (tq, Inl e, this, wq)"
    by (simp add: clickFrame_def clickFrame_resume_def h await_method_ref q)
  show "typeFrame drv selector txt this t w = (tq, Inl e, this, wq)"
    by (simp add: typeFrame_def h await_method_ref q)
next
  assume h: "field this ''_frame'' = VRef f"
    and q: "drv (Method (VRef f) ''$'' [selector]) t w = ((tq, Inr VNull), wq)
          \<or> drv (Method (VRef f) ''$'' [selector]) t w = ((tq, Inr VUndefined), wq)"
  from q show "clickFrame drv selector this t w = (tq, Inl TypeError, this, wq)"
    by (auto simp: clickFrame_def clickFrame_resume_def h await_method_ref invoke_def)
  from q show "typeFrame drv selector txt this t w = (tq, Inl TypeError, this, wq)"
    by (auto simp: typeFrame_def h await_method_ref invoke_def)
next
  assume h: "field this ''_frame'' = VRef f"
    and q: "drv (Method (VRef f) ''$'' [selector]) t w = ((tq, Inr (VRef el)), wq)"
  show "clickFrame drv selector this t w =
          (tq, Inr VUndefined, this, snd (drv (Method (VRef el) ''click'' []) tq wq))"
    by (simp add: clickFrame_def clickFrame_resume_def h await_method_ref q invoke_def
          split: prod.splits)
  show "typeFrame drv selector txt this t w =
          return_void this
            (case drv (Method (VRef el) ''type'' [txt]) tq
                    (snd (drv (Method (VRef el) ''click'' []) tq wq)) of
               ((tt, r), wt) \<Rightarrow> (tt, r, wt))"
    by (simp add: typeFrame_def h await_method_ref q invoke_def split: prod.splits)
qed

lemma field_ready:
  "field ready ''_page'' = VRef 1" "field ready ''_frame'' = VNull"
  "field ready ''_pages'' = VArr [VRef 1]" "field ready ''_browser'' = VRef 0"
  "field ready ''_iframe'' = VUndefined"
  by (simp_all add: ready_def field_def constructor_def)

lemma field_focused:
  "field focused ''_page'' = VRef 1" "field focused ''_frame'' = VRef 3"
  by (simp_all add: focused_def ready_def field_def constructor_def)

text \<open>
  The theorem at the controller after \<^verbatim>\<open>init\<close>, where no frame is focused, and
  with frame 3 focused in each of the four cases: the element is found and the click
  succeeds (first driver, \<^verbatim>\<open>#q\<close>), the element is found and the click is rejected
  (second driver), there is no element (first driver, \<^verbatim>\<open>#missing\<close>), and
  \<^verbatim>\<open>frame.$\<close> is rejected (third driver).
\<close>

theorem frame_ops_unfocused_or_stale_witness:
  "field ready ''_frame'' = VNull
   \<and> typeFrame demo_drv (VStr ''#q'') (VStr ''hi'') ready 1 [] = (1, Inl TypeError, ready, [])
   \<and> clickFrame demo_drv (VStr ''#q'') ready 1 [] = (1, Inl TypeError, ready, [])
   \<and> selectFrame demo_drv (VStr ''#q'') (VStr ''x'') ready 1 [] = (1, Inl TypeError, ready, [])
   \<and> field focused ''_frame'' = VRef 3
   \<and> selectFrame demo_drv (VStr ''#q'') (VStr ''x'') focused 1 []
       = (1, Inr VUndefined, focused, [Method (VRef 3) ''select'' [VStr ''#q'', VStr ''x'']])
   \<and> demo_drv (Method (VRef 3) ''$'' [VStr ''#q'']) 1 [] =
       ((2, Inr (VRef 9)), [Method (VRef 3) ''$'' [VStr ''#q'']])
   \<and> clickFrame demo_drv (VStr ''#q'') focused 1 [] =
       (2, Inr VUndefined, focused,
        [Method (VRef 3) ''$'' [VStr ''#q''], Method (VRef 9) ''click'' []])
   \<and> typeFrame demo_drv (VStr ''#q'') (VStr ''hi'') focused 1 [] =
       (2, Inr VUndefined, focused,
        [Method (VRef 3) ''$'' [VStr ''#q''], Method (VRef 9) ''click'' [],
         Method (VRef 9) ''type'' [VStr ''hi'']])
   \<and> detached_drv (Method (VRef 3) ''$'' [VStr ''#q'']) 1 [] =
       ((2, Inr (VRef 9)), [Method (VRef 3) ''$'' [VStr ''#q'']])
   \<and> detached_drv (Method (VRef 9) ''click'' []) 2 [Method (VRef 3) ''$'' [VStr ''#q'']] =
       ((5, Inl (DriverError ''Node is detached from document'')),
        [Method (VRef 3) ''$'' [VStr ''#q''], Method (VRef 9) ''click'' []])
   \<and> clickFrame detached_drv (VStr ''#q'') focused 1 [] =
       (2, Inr VUndefined, focused,
        [Method (VRef 3) ''$'' [VStr ''#q''], Method (VRef 9) ''click'' []])
   \<and> demo_drv (Method (VRef 3) ''$'' [VStr ''#missing'']) 1 [] =
       ((2, Inr VNull), [Method (VRef 3) ''$'' [VStr ''#missing'']])
   \<and> clickFrame demo_drv (VStr ''#missing'') focused 1 [] =
       (2, Inl TypeError, focused, [Method (VRef 3) ''$'' [VStr ''#missing'']])
   \<and> typeFrame demo_drv (VStr ''#missing'') (VStr ''hi'') focused 1 [] =
       (2, Inl TypeError, focused, [Method (VRef 3) ''$'' [VStr ''#missing'']])
   \<and> closed_drv (Method (VRef 3) ''$'' [VStr ''#q'']) 1 [] =
       ((3, Inl (DriverError ''Target closed'')), [Method (VRef 3) ''$'' [VStr ''#q'']])
   \<and> clickFrame closed_drv (VStr ''#q'') focused 1 [] =
       (3, Inl (DriverError ''Target closed''), focused, [Method (VRef 3) ''$'' [VStr ''#q'']])
   \<and> typeFrame closed_drv (VStr ''#q'') (VStr ''hi'') focused 1 [] =
       (3, Inl (DriverError ''Target closed''), focused, [Method (VRef 3) ''$'' [VStr ''#q'']])"
proof -
  have a: "field ready ''_frame'' = VNull" by (rule field_ready)
  have b: "field focused ''_frame'' = VRef 3" by (rule field_focused)
  have found: "demo_drv (Method (VRef 3) ''$'' [VStr ''#q'']) 1 [] =
       ((2, Inr (VRef 9)), [Method (VRef 3) ''$'' [VStr ''#q'']])"
    by (simp add: demo_drv_def demo_answer_def)
  have found': "detached_drv (Method (VRef 3) ''$'' [VStr ''#q'']) 1 [] =
       ((2, Inr (VRef 9)), [Method (VRef 3) ''$'' [VStr ''#q'']])"
    by (simp add: detached_drv_def)
  have gone: "detached_drv (Method (VRef 9) ''click'' []) 2 [Method (VRef 3) ''$'' [VStr ''#q'']] =
       ((5, Inl (DriverError ''Node is detached from document'')),
        [Method (VRef 3) ''$'' [VStr ''#q''], Method (VRef 9) ''click'' []])"
    by (simp add: detached_drv_def)
  have none: "demo_drv (Method (VRef 3) ''$'' [VStr ''#missing'']) 1 [] =
       ((2, Inr VNull), [Method (VRef 3) ''$'' [VStr ''#missing'']])"
    by (simp add: demo_drv_def demo_answer_def)
  have closed: "closed_drv (Method (VRef 3) ''$'' [VStr ''#q'']) 1 [] =
       ((3, Inl (DriverError ''Target closed'')), [Method (VRef 3) ''$'' [VStr ''#q'']])"
    by (simp add: closed_drv_def)
  have unfocused:
    "typeFrame demo_drv (VStr ''#q'') (VStr ''hi'') ready 1 [] = (1, Inl TypeError, ready, [])
   \<and> clickFrame demo_drv (VStr ''#q'') ready 1 [] = (1, Inl TypeError, ready, [])
   \<and> selectFrame demo_drv (VStr ''#q'') (VStr ''x'') ready 1 [] = (1, Inl TypeError, ready, [])"
    using frame_ops_unfocused_or_stale
            [of ready demo_drv "VStr ''#q''" "VStr ''hi''" 1 "[]" "VStr ''x''"] a
    by simp
  have on_handle:
    "selectFrame demo_drv (VStr ''#q'') (VStr ''x'') focused 1 []
       = (1, Inr VUndefined, focused, [Method (VRef 3) ''select'' [VStr ''#q'', VStr ''x'']])
   \<and> clickFrame demo_drv (VStr ''#q'') focused 1 [] =
       (2, Inr VUndefined, focused,
        [Method (VRef 3) ''$'' [VStr ''#q''], Method (VRef 9) ''click'' []])
   \<and> typeFrame demo_drv (VStr ''#q'') (VStr ''hi'') focused 1 [] =
       (2, Inr VUndefined, focused,
        [Method (VRef 3) ''$'' [VStr ''#q''], Method (VRef 9) ''click'' [],
         Method (VRef 9) ''type'' [VStr ''hi'']])"
    using frame_ops_unfocused_or_stale
            [of focused demo_drv "VStr ''#q''" "VStr ''hi''" 1 "[]" "VStr ''x''" 3 2 _
                "[Method (VRef 3) ''$'' [VStr ''#q'']]" 9] b found
    by (simp add: demo_drv_def demo_answer_def return_void_simps)
  have click_lost:
    "clickFrame detached_drv (VStr ''#q'') focused 1 [] =
       (2, Inr VUndefined, focused,
        [Method (VRef 3) ''$'' [VStr ''#q''], Method (VRef 9) ''click'' []])"
    using frame_ops_unfocused_or_stale
            [of focused detached_drv "VStr ''#q''" _ 1 "[]" _ 3 2 _
                "[Method (VRef 3) ''$'' [VStr ''#q'']]" 9] b found' gone
    by simp
  have no_element:
    "clickFrame demo_drv (VStr ''#missing'') focused 1 [] =
       (2, Inl TypeError, focused, [Method (VRef 3) ''$'' [VStr ''#missing'']])
   \<and> typeFrame demo_drv (VStr ''#missing'') (VStr ''hi'') focused 1 [] =
       (2, Inl TypeError, focused, [Method (VRef 3) ''$'' [VStr ''#missing'']])"
    using frame_ops_unfocused_or_stale
            [of focused demo_drv "VStr ''#missing''" "VStr ''hi''" 1 "[]" _ 3 2 _
                "[Method (VRef 3) ''$'' [VStr ''#missing'']]"] b none
    by simp
  have rejected:
    "clickFrame closed_drv (VStr ''#q'') focused 1 [] =
       (3, Inl (DriverError ''Target closed''), focused, [Method (VRef 3) ''$'' [VStr ''#q'']])
   \<and> typeFrame closed_drv (VStr ''#q'') (VStr ''hi'') focused 1 [] =
       (3, Inl (DriverError ''Target closed''), focused, [Method (VRef 3) ''$'' [VStr ''#q'']])"
    using frame_ops_unfocused_or_stale
            [of focused closed_drv "VStr ''#q''" "VStr ''hi''" 1 "[]" _ 3 3
                "DriverError ''Target closed''" "[Method (VRef 3) ''$'' [VStr ''#q'']]"] b closed
    by simp
  show ?thesis
    using a b found found' gone none closed unfocused on_handle click_lost no_element rejected
    by simp
qed

text \<open>
  C1 as stated fails: with no frame focused the error is a TypeError, not
  FrameNotResolvedError; and a handle focused before a navigation
  (\<^verbatim>\<open>goto\<close> is the last call the world has seen) is still operated on.
\<close>

theorem frame_ops_counterexample:
  "outcome (clickFrame demo_drv (VStr ''#ok'') ready 1 []) = Inl TypeError
   \<and> outcome (clickFrame demo_drv (VStr ''#ok'') ready 1 []) \<noteq> Inl FrameNotResolvedError
   \<and> outcome (clickFrame demo_drv (VStr ''#ok'') focused 2
                [Method (VRef 1) ''goto'' [VStr ''https://example.org/next'', VObj []]])
       = Inr VUndefined"
  by (simp add: clickFrame_def clickFrame_resume_def await_method_def invoke_def field_ready
        field_focused demo_drv_def demo_answer_def outcome_def)


section \<open>What loading the module gives\<close>

text \<open>
  Once both \<^verbatim>\<open>require\<close> calls succeed, the last statement looks up
  \<^verbatim>\<open>Controller\<close>, which the module binds nowhere: unless a global of that name
  exists, loading throws. In no case is the export the class the file declares.
\<close>

lemma load_needs_global:
  "req ''../include/functions'' = Inr a \<Longrightarrow> req ''puppeteer'' = Inr b \<Longrightarrow>
   globals ''Controller'' = None \<Longrightarrow>
   load_module req globals simplecontroller_js = Inl (ReferenceError ''Controller'')"
  by (simp add: load_module_def simplecontroller_js_def lookup_def)

lemma load_never_exports_class:
  "globals ''Controller'' \<noteq> Some (VClass ''SimpleController'') \<Longrightarrow>
   load_module req globals simplecontroller_js \<noteq> Inr (VClass ''SimpleController'')"
  by (auto simp: load_module_def simplecontroller_js_def lookup_def split: sum.splits option.splits)

text \<open>
  C2. Loading the module should succeed and export the class
  \<^verbatim>\<open>SimpleController\<close>. On the code, with both required modules found and no
  global named \<^verbatim>\<open>Controller\<close>, loading throws
  \<^verbatim>\<open>ReferenceError: Controller is not defined\<close> and exports nothing.
\<close>

theorem load_module_fails:
  "load_module require_ok Map.empty simplecontroller_js = Inl (ReferenceError ''Controller'')
   \<and> load_module require_ok Map.empty simplecontroller_js \<noteq> Inr (VClass ''SimpleController'')"
  by (simp add: load_module_def simplecontroller_js_def require_ok_def lookup_def)

section \<open>Scrolling\<close>

text \<open>
  The result of \<^verbatim>\<open>scrollDown\<close> is the same for any two stop selectors, on every
  driver; \<^verbatim>\<open>scrollUp\<close> passes its stop selector on as the second argument.
\<close>

lemma scrollDown_ignores_stopSelector:
  "scrollDown drv s1 wait press minScrolls maxScrolls minIterations this t w =
   scrollDown drv s2 wait press minScrolls maxScrolls minIterations this t w"
  by (simp add: scrollDown_def)

lemma scrollUp_forwards:
  "scrollUp drv stopSelector (VBool wt) (VBool pr) (VNum mn) (VNum mx) this t w =
     return_void this
       (await_static drv ''Functions.scrollUp''
          [field this ''_page'', stopSelector, VBool wt, VBool pr, VNum mn, VNum mx] t w)"
  by (simp add: scrollUp_def dflt_def)

text \<open>
  C3. \<^verbatim>\<open>scrollDown\<close> should forward \<^verbatim>\<open>stopSelector\<close> with the other
  five arguments. On the code, \<^verbatim>\<open>scrollDown("#footer", true, false, 11, 15, 0)\<close>
  makes one call, \<^verbatim>\<open>Functions.scrollDown(page, true, false, 11, 15, 0)\<close>: the
  selector is not among the arguments and the wait flag stands in its place.
\<close>

theorem scrollDown_drops_stopSelector:
  "scrollDown demo_drv (VStr ''#footer'') (VBool True) (VBool False) (VNum 11) (VNum 15) (VNum 0)
      ready 1 []
   = (1, Inr VUndefined, ready,
      [Static ''Functions.scrollDown''
         [VRef 1, VBool True, VBool False, VNum 11, VNum 15, VNum 0]])"
  by (simp add: scrollDown_def return_void_def await_static_def demo_drv_def demo_answer_def
        field_ready dflt_def)

section \<open>Typing\<close>

text \<open>
  On a bounded stack, whatever the bound, the call is rejected with a RangeError at the
  time of the call, and nothing has reached the driver.
\<close>

lemma type_on_stack_rejects:
  "type_on_stack n drv selector text this t w = (t, Inl RangeError, this, w)"
  by (induction n arbitrary: selector) (simp_all add: return_void_simps)

text \<open>
  C4. \<^verbatim>\<open>type(selector, text)\<close> should focus the element, emit the characters
  and return. On the code, \<^verbatim>\<open>type("#q", "hi")\<close> only calls itself: without a bound
  on the stack it never returns, and on an engine, whatever the bound, it is rejected
  with a RangeError; either way the driver has seen no call, so nothing was focused and
  no character was emitted.
\<close>

theorem type_never_returns:
  "type demo_drv (VStr ''#q'') (VStr ''hi'') ready 1 [] = None
   \<and> type_on_stack n demo_drv (VStr ''#q'') (VStr ''hi'') ready 1 []
       = (1, Inl RangeError, ready, [])"
  by (simp add: type_diverges type_on_stack_rejects)


section \<open>Clicking\<close>

text \<open>
  \<^verbatim>\<open>click\<close> reads none of \<^verbatim>\<open>delay\<close>, \<^verbatim>\<open>tap\<close>,
  \<^verbatim>\<open>topRight\<close>, \<^verbatim>\<open>doTrigger\<close>, and an error of the driver's click is the
  error of the method.
\<close>

lemma click_ignores_options:
  "click drv selector delay tap topRight doTrigger this t w =
   click drv selector delay' tap' topRight' doTrigger' this t w"
  by (simp add: click_def)

lemma click_error_surfaces:
  "field this ''_page'' = VRef p \<Longrightarrow>
   drv (Method (VRef p) ''click'' [selector]) t w = ((t1, Inl e), w1) \<Longrightarrow>
   click drv selector delay tap topRight doTrigger this t w = (t1, Inl e, this, w1)"
  by (simp add: click_def await_method_ref return_void_simps)

text \<open>
  C5. With \<^verbatim>\<open>doTrigger = true\<close> a failed click dispatch should not be
  surfaced, the click being triggered by script instead. On the code, when the driver
  rejects the click of \<^verbatim>\<open>click("#menu-item", undefined, undefined, undefined, true)\<close>,
  the method is rejected with the same error and the driver has seen the one call
  \<^verbatim>\<open>page.click("#menu-item")\<close>: no script was injected.
\<close>

theorem click_doTrigger_no_fallback:
  "click detached_drv (VStr ''#menu-item'') VUndefined VUndefined VUndefined (VBool True) ready 1 []
   = (4, Inl (DriverError ''Node is detached from document''), ready,
      [Method (VRef 1) ''click'' [VStr ''#menu-item'']])"
  by (simp add: click_def await_method_ref return_void_simps field_ready detached_drv_def)

section \<open>Waiting for a selector\<close>

text \<open>
  C6, as the code has it. When the helper behaves as the spec says on a selector that
  stays absent for the whole timeout, \<^verbatim>\<open>waitForSelector(selector, doThrow)\<close> with
  \<^verbatim>\<open>doThrow\<close> false (or left out) does not throw and resolves to
  \<^verbatim>\<open>undefined\<close>: the \<^verbatim>\<open>false\<close> of the helper is dropped. With
  \<^verbatim>\<open>doThrow = true\<close> it is rejected with ElementNotFoundError.
\<close>

theorem waitForSelector_absent:
  assumes "drv (Static ''Functions.waitForSelector''
                  [field this ''_page'', selector, dflt (VBool False) doThrow]) t w
           = ((t1, waitForSelector_spec False (dflt (VBool False) doThrow)), w1)"
  shows "(doThrow = VBool False \<or> doThrow = VUndefined \<longrightarrow>
            waitForSelector drv selector doThrow this t w = (t1, Inr VUndefined, this, w1))
       \<and> (doThrow = VBool True \<longrightarrow>
            waitForSelector drv selector doThrow this t w = (t1, Inl ElementNotFoundError, this, w1))"
  using assms
  by (auto simp: waitForSelector_def await_static_def waitForSelector_spec_def dflt_def
        return_void_simps)

text \<open>
  The theorem on the first driver, for \<^verbatim>\<open>doThrow = false\<close> and for
  \<^verbatim>\<open>doThrow = true\<close>.
\<close>

theorem waitForSelector_absent_witness:
  "demo_drv (Static ''Functions.waitForSelector''
               [field ready ''_page'', VStr ''#missing'', dflt (VBool False) (VBool False)]) 1 []
     = ((30001, waitForSelector_spec False (dflt (VBool False) (VBool False))),
        [Static ''Functions.waitForSelector'' [VRef 1, VStr ''#missing'', VBool False]])
   \<and> demo_drv (Static ''Functions.waitForSelector''
               [field ready ''_page'', VStr ''#missing'', dflt (VBool False) (VBool True)]) 1 []
     = ((30001, waitForSelector_spec False (dflt (VBool False) (VBool True))),
        [Static ''Functions.waitForSelector'' [VRef 1, VStr ''#missing'', VBool True]])
   \<and> waitForSelector demo_drv (VStr ''#missing'') (VBool False) ready 1 []
     = (30001, Inr VUndefined, ready,
        [Static ''Functions.waitForSelector'' [VRef 1, VStr ''#missing'', VBool False]])
   \<and> waitForSelector demo_drv (VStr ''#missing'') (VBool True) ready 1 []
     = (30001, Inl ElementNotFoundError, ready,
        [Static ''Functions.waitForSelector'' [VRef 1, VStr ''#missing'', VBool True]])"
proof -
  have a: "demo_drv (Static ''Functions.waitForSelector''
               [field ready ''_page'', VStr ''#missing'', dflt (VBool False) (VBool False)]) 1 []
     = ((30001, waitForSelector_spec False (dflt (VBool False) (VBool False))),
        [Static ''Functions.waitForSelector'' [VRef 1, VStr ''#missing'', VBool False]])"
    by (simp add: demo_drv_def demo_answer_def field_ready dflt_def)
  have b: "demo_drv (Static ''Functions.waitForSelector''
               [field ready ''_page'', VStr ''#missing'', dflt (VBool False) (VBool True)]) 1 []
     = ((30001, waitForSelector_spec False (dflt (VBool False) (VBool True))),
        [Static ''Functions.waitForSelector'' [VRef 1, VStr ''#missing'', VBool True]])"
    by (simp add: demo_drv_def demo_answer_def field_ready dflt_def)
  show ?thesis
    using waitForSelector_absent [where drv = demo_drv and doThrow = "VBool False", OF a]
          waitForSelector_absent [where drv = demo_drv and doThrow = "VBool True", OF b] a b
    by simp
qed

text \<open>
  C6 as stated fails: the value of
  \<^verbatim>\<open>waitForSelector("#missing", false)\<close> is \<^verbatim>\<open>undefined\<close>, not
  \<^verbatim>\<open>false\<close>.
\<close>

theorem waitForSelector_counterexample:
  "outcome (waitForSelector demo_drv (VStr ''#missing'') (VBool False) ready 1 []) = Inr VUndefined
   \<and> outcome (waitForSelector demo_drv (VStr ''#missing'') (VBool False) ready 1 [])
       \<noteq> Inr (VBool False)"
  by (simp add: waitForSelector_def await_static_def return_void_def demo_drv_def demo_answer_def
        waitForSelector_spec_def dflt_def outcome_def)


section \<open>Clicking and waiting for the navigation\<close>

text \<open>
  \<^verbatim>\<open>Promise.all\<close> of two promises is fulfilled only when both are, at the later of
  the two times; a rejection of the first promise is passed on no later than it happens.
\<close>

lemma promise_all_two_fulfilled:
  "promise_all t [(tc, rc), (tn, rn)] = (ta, Inr v) \<Longrightarrow>
   (\<exists>vc vn. rc = Inr vc \<and> rn = Inr vn \<and> v = VArr [vc, vn]) \<and> ta = max tn (max tc t)"
  by (cases rc; cases rn) (auto simp: promise_all_def split: if_splits)

lemma promise_all_rejects_early:
  "promise_all t [(tc, Inl e), (tn, rn)] = (ta, r) \<Longrightarrow> ta \<le> tc \<and> (\<exists>e'. r = Inl e')"
  by (cases rn) (auto simp: promise_all_def split: if_splits)

text \<open>
  C7. \<^verbatim>\<open>clickAndWait\<close> issues the click and the wait for the navigation
  together, both at the time of the call, and whenever it is fulfilled, at time \<open>ta\<close>,
  the click of the driver was fulfilled at a time \<open>tc \<le> ta\<close> and the wait for the
  navigation at a time \<open>tn \<le> ta\<close>: it is never fulfilled before the navigation
  has completed.
\<close>

theorem clickAndWait_after_both:
  assumes "clickAndWait drv selector delay tap topRight doTrigger this t w = (ta, Inr v, this', w')"
  shows "\<exists>tc vc wc tn vn.
           field this ''_page'' \<noteq> VNull \<and> field this ''_page'' \<noteq> VUndefined
         \<and> drv (Method (field this ''_page'') ''click'' [selector]) t w = ((tc, Inr vc), wc)
         \<and> drv (Method (field this ''_page'') ''waitForNavigation'' []) t wc = ((tn, Inr vn), w')
         \<and> tc \<le> ta \<and> tn \<le> ta \<and> v = VUndefined \<and> this' = this"
proof -
  obtain tc rc wc where c:
    "await_method drv (field this ''_page'') ''click'' [selector] t w = (tc, rc, wc)"
    by (cases "await_method drv (field this ''_page'') ''click'' [selector] t w") auto
  obtain tn rn wn where n:
    "await_method drv (field this ''_page'') ''waitForNavigation'' [] t wc = (tn, rn, wn)"
    by (cases "await_method drv (field this ''_page'') ''waitForNavigation'' [] t wc") auto
  obtain tp rp where p:
    "promise_all t [(tc, outcome (return_void this (tc, rc, wc))),
                    (tn, outcome (return_void this (tn, rn, wn)))] = (tp, rp)"
    by (cases "promise_all t [(tc, outcome (return_void this (tc, rc, wc))),
                    (tn, outcome (return_void this (tn, rn, wn)))]") auto
  have run: "clickAndWait drv selector delay tap topRight doTrigger this t w
             = return_void this (tp, rp, wn)"
    using c n p
    by (cases rc; cases rn)
       (simp_all add: clickAndWait_def click_def waitForNavigation_def await_all_def
          return_void_simps outcome_def)
  with assms obtain vp where rp: "rp = Inr vp" and ta: "ta = tp" and w': "w' = wn"
    and v: "v = VUndefined" and this': "this' = this"
    by (cases rp) (auto simp: return_void_simps)
  from promise_all_two_fulfilled [OF p [unfolded rp]]
  obtain vc vn where rc: "rc = Inr vc" and rn: "rn = Inr vn" and tp: "tp = max tn (max tc t)"
    by (cases rc; cases rn) (auto simp: return_void_simps outcome_def)
  have page: "field this ''_page'' \<noteq> VNull \<and> field this ''_page'' \<noteq> VUndefined"
    using c rc by (auto simp: await_method_def invoke_def split: if_splits)
  from page c rc have "drv (Method (field this ''_page'') ''click'' [selector]) t w = ((tc, Inr vc), wc)"
    by (auto simp: await_method_def invoke_def split: prod.splits)
  moreover from page n rn
  have "drv (Method (field this ''_page'') ''waitForNavigation'' []) t wc = ((tn, Inr vn), wn)"
    by (auto simp: await_method_def invoke_def split: prod.splits)
  ultimately show ?thesis
    using page ta tp w' v this' by auto
qed

text \<open>
  On the first driver the click is done at time 6 and the navigation at time 21, and
  \<^verbatim>\<open>clickAndWait\<close> called at time 1 is fulfilled at time 21.
\<close>

theorem clickAndWait_after_both_witness:
  "clickAndWait demo_drv (VStr ''#next'') VUndefined VUndefined VUndefined VUndefined ready 1 []
     = (21, Inr VUndefined, ready,
        [Method (VRef 1) ''click'' [VStr ''#next''], Method (VRef 1) ''waitForNavigation'' []])
   \<and> (\<exists>tc vc wc tn vn.
         demo_drv (Method (field ready ''_page'') ''click'' [VStr ''#next'']) 1 [] = ((tc, Inr vc), wc)
       \<and> demo_drv (Method (field ready ''_page'') ''waitForNavigation'' []) 1 wc
           = ((tn, Inr vn),
              [Method (VRef 1) ''click'' [VStr ''#next''], Method (VRef 1) ''waitForNavigation'' []])
       \<and> tc \<le> 21 \<and> tn \<le> (21::nat))"
proof -
  have a: "clickAndWait demo_drv (VStr ''#next'') VUndefined VUndefined VUndefined VUndefined ready 1 []
     = (21, Inr VUndefined, ready,
        [Method (VRef 1) ''click'' [VStr ''#next''], Method (VRef 1) ''waitForNavigation'' []])"
    by (simp add: clickAndWait_def click_def waitForNavigation_def await_method_ref
          return_void_simps await_all_def promise_all_def field_ready demo_drv_def demo_answer_def)
  show ?thesis
    using clickAndWait_after_both [OF a] a by blast
qed

section \<open>Focusing a frame\<close>

text \<open>
  The helper, as modelled, answers \<^verbatim>\<open>null\<close> exactly when no frame has the prefix,
  and a frame with the prefix otherwise.
\<close>

lemma find_Some_mem: "find P xs = Some x \<Longrightarrow> x \<in> set xs \<and> P x"
  by (induction xs) (auto split: if_splits)

lemma getFrame_spec_null:
  "(getFrame_spec frames urlPrefix = VNull) = (\<not> (\<exists>f \<in> set frames. prefix urlPrefix (snd f)))"
proof (cases "find (\<lambda>f. prefix urlPrefix (snd f)) frames")
  case None
  then have "\<not> (\<exists>f \<in> set frames. prefix urlPrefix (snd f))"
    by (auto simp: find_None_iff)
  then show ?thesis
    by (simp add: getFrame_spec_def None)
next
  case (Some f)
  from find_Some_mem [OF Some] Some show ?thesis
    by (auto simp: getFrame_spec_def)
qed

lemma getFrame_spec_found:
  "getFrame_spec frames urlPrefix \<noteq> VNull \<Longrightarrow>
   \<exists>f \<in> set frames. prefix urlPrefix (snd f) \<and> getFrame_spec frames urlPrefix = VRef (fst f)"
proof (cases "find (\<lambda>f. prefix urlPrefix (snd f)) frames")
  case None
  assume "getFrame_spec frames urlPrefix \<noteq> VNull"
  with None show ?thesis
    by (simp add: getFrame_spec_def)
next
  case (Some f)
  from find_Some_mem [OF Some] Some show ?thesis
    by (auto simp: getFrame_spec_def)
qed

text \<open>
  C8. With the helper \<^verbatim>\<open>Functions.getFrame\<close> as the spec describes it, over
  the frames the page has at the time of the call, \<^verbatim>\<open>focusFrame(urlPrefix)\<close>
  is fulfilled (no error) with \<^verbatim>\<open>true\<close> if and only if one of the frames has a
  URL that starts with \<^verbatim>\<open>urlPrefix\<close>; on \<^verbatim>\<open>true\<close> such a frame is stored in
  \<^verbatim>\<open>_frame\<close>, on \<^verbatim>\<open>false\<close> the controller is unchanged.
\<close>

theorem focusFrame_iff_frame_exists:
  assumes "drv (Static ''Functions.getFrame'' [field this ''_page'', VStr urlPrefix]) t w
           = ((t1, Inr (getFrame_spec frames urlPrefix)), w1)"
  shows "outcome (focusFrame drv (VStr urlPrefix) this t w)
           = Inr (VBool (\<exists>f \<in> set frames. prefix urlPrefix (snd f)))
       \<and> ((\<exists>f \<in> set frames. prefix urlPrefix (snd f)) \<longrightarrow>
            (\<exists>f \<in> set frames. prefix urlPrefix (snd f)
               \<and> this_after (focusFrame drv (VStr urlPrefix) this t w)
                   = this(''_frame'' \<mapsto> VRef (fst f))))
       \<and> (\<not> (\<exists>f \<in> set frames. prefix urlPrefix (snd f)) \<longrightarrow>
            this_after (focusFrame drv (VStr urlPrefix) this t w) = this)"
proof (cases "getFrame_spec frames urlPrefix = VNull")
  case True
  then have none: "\<not> (\<exists>f \<in> set frames. prefix urlPrefix (snd f))"
    by (simp add: getFrame_spec_null)
  have "focusFrame drv (VStr urlPrefix) this t w = (t1, Inr (VBool False), this, w1)"
    using assms True by (simp add: focusFrame_def await_static_def)
  with none show ?thesis
    by (simp add: outcome_def this_after_def)
next
  case False
  from getFrame_spec_found [OF False] obtain f where f: "f \<in> set frames"
    "prefix urlPrefix (snd f)" "getFrame_spec frames urlPrefix = VRef (fst f)"
    by blast
  have "focusFrame drv (VStr urlPrefix) this t w
          = (t1, Inr (VBool True), this(''_frame'' \<mapsto> VRef (fst f)), w1)"
    using assms f(3) by (simp add: focusFrame_def await_static_def)
  with f show ?thesis
    by (auto simp: outcome_def this_after_def)
qed

text \<open>
  On the first driver: a prefix of the URL of frame 3 focuses frame 3, a prefix of no
  frame gives \<^verbatim>\<open>false\<close> and leaves the controller as it was.
\<close>

theorem focusFrame_iff_frame_exists_witness:
  "demo_drv (Static ''Functions.getFrame'' [field ready ''_page'', VStr ''https://captcha.example'']) 1 []
     = ((1, Inr (getFrame_spec demo_frames ''https://captcha.example'')),
        [Static ''Functions.getFrame'' [VRef 1, VStr ''https://captcha.example'']])
   \<and> outcome (focusFrame demo_drv (VStr ''https://captcha.example'') ready 1 []) = Inr (VBool True)
   \<and> this_after (focusFrame demo_drv (VStr ''https://captcha.example'') ready 1 []) = focused
   \<and> demo_drv (Static ''Functions.getFrame'' [field ready ''_page'', VStr ''https://other.example'']) 1 []
     = ((1, Inr (getFrame_spec demo_frames ''https://other.example'')),
        [Static ''Functions.getFrame'' [VRef 1, VStr ''https://other.example'']])
   \<and> outcome (focusFrame demo_drv (VStr ''https://other.example'') ready 1 []) = Inr (VBool False)
   \<and> this_after (focusFrame demo_drv (VStr ''https://other.example'') ready 1 []) = ready"
proof -
  have a: "demo_drv (Static ''Functions.getFrame'' [field ready ''_page'', VStr ''https://captcha.example'']) 1 []
     = ((1, Inr (getFrame_spec demo_frames ''https://captcha.example'')),
        [Static ''Functions.getFrame'' [VRef 1, VStr ''https://captcha.example'']])"
    by (simp add: demo_drv_def demo_answer_def field_ready)
  have b: "demo_drv (Static ''Functions.getFrame'' [field ready ''_page'', VStr ''https://other.example'']) 1 []
     = ((1, Inr (getFrame_spec demo_frames ''https://other.example'')),
        [Static ''Functions.getFrame'' [VRef 1, VStr ''https://other.example'']])"
    by (simp add: demo_drv_def demo_answer_def field_ready)
  have c: "(\<exists>f \<in> set demo_frames. prefix ''https://captcha.example'' (snd f))"
    by (simp add: demo_frames_def)
  have d: "\<not> (\<exists>f \<in> set demo_frames. prefix ''https://other.example'' (snd f))"
    by (simp add: demo_frames_def)
  have e: "\<And>f. f \<in> set demo_frames \<Longrightarrow> prefix ''https://captcha.example'' (snd f) \<Longrightarrow> fst f = 3"
    by (auto simp: demo_frames_def)
  from focusFrame_iff_frame_exists [where drv = demo_drv, OF a] c
  obtain f where "f \<in> set demo_frames" "prefix ''https://captcha.example'' (snd f)"
    "this_after (focusFrame demo_drv (VStr ''https://captcha.example'') ready 1 [])
       = ready(''_frame'' \<mapsto> VRef (fst f))"
    by blast
  with e have "this_after (focusFrame demo_drv (VStr ''https://captcha.example'') ready 1 []) = focused"
    by (simp add: focused_def)
  then show ?thesis
    using focusFrame_iff_frame_exists [where drv = demo_drv, OF a]
          focusFrame_iff_frame_exists [where drv = demo_drv, OF b] a b c d
    by simp
qed

section \<open>Initialisation\<close>

text \<open>
  C9. When the helper \<^verbatim>\<open>Functions.init\<close> succeeds and hands back an object whose
  \<^verbatim>\<open>page\<close> is a page handle, \<^verbatim>\<open>init\<close> is fulfilled, and afterwards the
  controller holds that page (which is not null), no focused frame (null), and a list of
  open pages with exactly one entry, the page itself.
\<close>

theorem init_session:
  assumes "drv (Static ''Functions.init''
                  [Puppeteer, field this ''_endpoint'', dflt (VStr '''') executablePath]) t w
           = ((t1, Inr ini), w1)"
    and "getprop ini ''page'' = Inr (VRef p)"
  shows "outcome (init drv executablePath this t w) = Inr VUndefined
       \<and> field (this_after (init drv executablePath this t w)) ''_page'' = VRef p
       \<and> field (this_after (init drv executablePath this t w)) ''_page'' \<noteq> VNull
       \<and> field (this_after (init drv executablePath this t w)) ''_frame'' = VNull
       \<and> field (this_after (init drv executablePath this t w)) ''_pages'' = VArr [VRef p]"
proof -
  from assms(2) obtain br where br: "getprop ini ''browser'' = Inr br"
    by (cases ini) auto
  from assms(1) have "await_static drv ''Functions.init''
      [Puppeteer, field this ''_endpoint'', dflt (VStr '''') executablePath] t w
      = (t1, Inr ini, w1)"
    by (simp add: await_static_def)
  with assms(2) br show ?thesis
    by (simp add: init_def field_def Let_def outcome_def this_after_def)
qed

text \<open>
  On the first driver, \<^verbatim>\<open>init\<close> of a new controller gives the controller
  \<open>ready\<close>.
\<close>

lemma init_on_demo:
  "init demo_drv VUndefined (constructor (VRef 100) VUndefined) 0 []
     = (1, Inr VUndefined, ready, [Static ''Functions.init'' [Puppeteer, VNull, VStr '''']])"
  by (simp add: init_def await_static_def demo_drv_def demo_answer_def constructor_def
        field_def dflt_def ready_def Let_def)

text \<open>
  The theorem for a new controller on the first driver.
\<close>

theorem init_session_witness:
  "demo_drv (Static ''Functions.init''
       [Puppeteer, field (constructor (VRef 100) VUndefined) ''_endpoint'', dflt (VStr '''') VUndefined])
       0 []
     = ((1, Inr (VObj [(''page'', VRef 1), (''browser'', VRef 0)])),
        [Static ''Functions.init'' [Puppeteer, VNull, VStr '''']])
   \<and> getprop (VObj [(''page'', VRef 1), (''browser'', VRef 0)]) ''page'' = Inr (VRef 1)
   \<and> outcome (init demo_drv VUndefined (constructor (VRef 100) VUndefined) 0 []) = Inr VUndefined
   \<and> field (this_after (init demo_drv VUndefined (constructor (VRef 100) VUndefined) 0 [])) ''_page''
       = VRef 1
   \<and> field (this_after (init demo_drv VUndefined (constructor (VRef 100) VUndefined) 0 [])) ''_frame''
       = VNull
   \<and> field (this_after (init demo_drv VUndefined (constructor (VRef 100) VUndefined) 0 [])) ''_pages''
       = VArr [VRef 1]"
proof -
  have a: "demo_drv (Static ''Functions.init''
       [Puppeteer, field (constructor (VRef 100) VUndefined) ''_endpoint'', dflt (VStr '''') VUndefined])
       0 []
     = ((1, Inr (VObj [(''page'', VRef 1), (''browser'', VRef 0)])),
        [Static ''Functions.init'' [Puppeteer, VNull, VStr '''']])"
    by (simp add: demo_drv_def demo_answer_def constructor_def field_def dflt_def)
  have b: "getprop (VObj [(''page'', VRef 1), (''browser'', VRef 0)]) ''page'' = Inr (VRef 1)"
    by simp
  show ?thesis
    using init_session [where drv = demo_drv, OF a b] a b by simp
qed


section \<open>The field read by solveRecaptcha\<close>

text \<open>
  Only \<^verbatim>\<open>init\<close>, \<^verbatim>\<open>focusFrame\<close> and \<^verbatim>\<open>focusFrameSelector\<close> assign
  fields: the last two assign \<^verbatim>\<open>_frame\<close> and nothing else, and
  \<^verbatim>\<open>init\<close> does not assign \<^verbatim>\<open>_iframe\<close>. Every other method leaves the
  controller as it was.
\<close>

lemma init_keeps_iframe:
  "this_after (init drv p this t w) ''_iframe'' = this ''_iframe''"
  by (auto simp: init_def this_after_def Let_def split: prod.splits sum.splits)

lemma focusFrame_assigns_frame_only:
  "k \<noteq> ''_frame'' \<Longrightarrow> this_after (focusFrame drv u this t w) k = this k"
  by (auto simp: focusFrame_def this_after_def split: prod.splits sum.splits)

lemma focusFrameSelector_assigns_frame_only:
  "k \<noteq> ''_frame'' \<Longrightarrow> this_after (focusFrameSelector drv s this t w) k = this k"
  by (auto simp: focusFrameSelector_def this_after_def split: prod.splits sum.splits)

lemma focusFrame_keeps_iframe:
  "this_after (focusFrame drv u this t w) ''_iframe'' = this ''_iframe''"
  by (simp add: focusFrame_assigns_frame_only)

lemma focusFrameSelector_keeps_iframe:
  "this_after (focusFrameSelector drv s this t w) ''_iframe'' = this ''_iframe''"
  by (simp add: focusFrameSelector_assigns_frame_only)

lemma typeFrame_keeps_this: "this_after (typeFrame drv s x this t w) = this"
  by (auto simp: typeFrame_def this_after_return_void this_after_tuple
        split: prod.splits sum.splits)

lemma clickFrame_resume_keeps_this: "this_after (clickFrame_resume drv this s) = this"
  by (auto simp: clickFrame_resume_def this_after_tuple split: prod.splits sum.splits)

lemma clickFrame_keeps_this: "this_after (clickFrame drv s this t w) = this"
  by (simp add: clickFrame_def clickFrame_resume_keeps_this)

lemma click_keeps_this: "this_after (click drv s d tp tr dt this t w) = this"
  by (simp add: click_def this_after_return_void)

lemma waitForNavigation_keeps_this: "this_after (waitForNavigation drv this t w) = this"
  by (simp add: waitForNavigation_def this_after_return_void)

lemma this_after_eq: "x = (t1, r, this1, w1) \<Longrightarrow> this_after x = this1"
  by (simp add: this_after_def)

lemma clickAndWait_keeps_this: "this_after (clickAndWait drv s d tp tr dt this t w) = this"
proof -
  obtain tc rc this1 wc where c:
    "click drv s VUndefined VUndefined VUndefined VUndefined this t w = (tc, rc, this1, wc)"
    by (cases "click drv s VUndefined VUndefined VUndefined VUndefined this t w") auto
  obtain tn rn this2 wn where n: "waitForNavigation drv this1 t wc = (tn, rn, this2, wn)"
    by (cases "waitForNavigation drv this1 t wc") auto
  from c have "this1 = this"
    using click_keeps_this [of drv s VUndefined VUndefined VUndefined VUndefined this t w]
    by (simp add: this_after_def)
  moreover from n have "this2 = this1"
    using waitForNavigation_keeps_this [of drv this1 t wc] by (simp add: this_after_def)
  ultimately show ?thesis
    using c n by (simp add: clickAndWait_def this_after_return_void)
qed

lemma clickFrameAndWait_keeps_this: "this_after (clickFrameAndWait drv s this t w) = this"
proof -
  have "this1 = this" if "clickFrame_resume drv this x = (tc, rc, this1, wc)"
    for x tc rc this1 and wc :: 'a
    using clickFrame_resume_keeps_this [of drv this x] that by (simp add: this_after_def)
  then show ?thesis
    by (auto simp: clickFrameAndWait_def this_after_return_void this_after_tuple
          split: sum.splits prod.splits)
qed

lemma scrollToBottom_keeps_this: "this_after (scrollToBottom drv this t w) = this"
  by (auto simp: scrollToBottom_def this_after_return_void this_after_tuple
        split: prod.splits sum.splits)

lemmas method_defs =
  typeEnter_def typeTab_def typeEsc_def hover_def waitForSelector_def select_def
  selectFrame_def goto_def randomWait_def logScreenshot_def isSelectorVisible_def
  scrollToSelector_def scrollUp_def scrollDown_def setValue_def deactivateLink_def
  getHref_def getRandomTime_def getRandomNumber_def getRandomBoolean_def goBack_def
  getPage_def getFrame_def getIdentity_def solveCaptcha_def solveRecaptcha_def

lemmas keeps_this =
  typeFrame_keeps_this clickFrame_keeps_this click_keeps_this waitForNavigation_keeps_this
  clickAndWait_keeps_this clickFrameAndWait_keeps_this scrollToBottom_keeps_this
  this_after_return_void this_after_return_value this_after_tuple

text \<open>
  So no operation, and no sequence of operations, changes \<^verbatim>\<open>_iframe\<close>.
\<close>

lemma exec_keeps_iframe:
  "this_after (exec drv stack x this t w) ''_iframe'' = this ''_iframe''"
proof (cases x)
  case (Init p)
  then show ?thesis by (simp add: init_keeps_iframe)
next
  case (FocusFrame u)
  then show ?thesis by (simp add: focusFrame_keeps_iframe)
next
  case (FocusFrameSelector s)
  then show ?thesis by (simp add: focusFrameSelector_keeps_iframe)
next
  case (Type s x)
  then show ?thesis by (simp add: type_on_stack_rejects this_after_tuple)
qed (simp_all add: keeps_this method_defs)

lemma run_ops_keeps_iframe:
  "run_ops drv stack ops this t w = (this', t', w') \<Longrightarrow> this' ''_iframe'' = this ''_iframe''"
proof (induction ops arbitrary: this t w)
  case Nil
  then show ?case by simp
next
  case (Cons x xs)
  obtain t1 r this1 w1 where x: "exec drv stack x this t w = (t1, r, this1, w1)"
    by (cases "exec drv stack x this t w") auto
  with Cons.prems have xs: "run_ops drv stack xs this1 t1 w1 = (this', t', w')"
    by simp
  from exec_keeps_iframe [of drv stack x this t w] x have "this1 ''_iframe'' = this ''_iframe''"
    by (simp add: this_after_def)
  with Cons.IH [OF xs] show ?case by simp
qed

text \<open>
  C10. After any sequence of operations on a newly constructed controller, calls of
  \<^verbatim>\<open>type\<close> included, the field \<^verbatim>\<open>_iframe\<close> is still unassigned, so
  \<^verbatim>\<open>solveRecaptcha(selector)\<close> passes \<^verbatim>\<open>undefined\<close> as the frame to
  \<^verbatim>\<open>Functions.solveRecaptcha\<close>, whichever frame was focused.
\<close>

theorem solveRecaptcha_undefined_frame:
  assumes "run_ops drv stack ops (constructor identity endpoint) t w = (this, t', w')"
  shows "this ''_iframe'' = None
       \<and> field this ''_iframe'' = VUndefined
       \<and> solveRecaptcha drv selector this t' w'
           = return_value this
               (await_static drv ''Functions.solveRecaptcha'' [VUndefined, selector] t' w')"
proof -
  from run_ops_keeps_iframe [OF assms] have "this ''_iframe'' = None"
    by (simp add: constructor_def)
  then show ?thesis
    by (simp add: solveRecaptcha_def field_def)
qed

text \<open>
  On the first driver, \<^verbatim>\<open>init\<close>, a rejected \<^verbatim>\<open>type\<close> and then
  \<^verbatim>\<open>focusFrame\<close> give the controller \<open>focused\<close>.
\<close>

lemma run_on_demo:
  "run_ops demo_drv 10000
      [Init VUndefined, Type (VStr ''#q'') (VStr ''hi''), FocusFrame (VStr ''https://captcha.example'')]
      (constructor (VRef 100) VUndefined) 0 []
   = (focused, 1,
      [Static ''Functions.init'' [Puppeteer, VNull, VStr ''''],
       Static ''Functions.getFrame'' [VRef 1, VStr ''https://captcha.example'']])"
  by (simp add: init_on_demo type_on_stack_rejects focusFrame_def await_static_def field_ready
        demo_drv_def demo_answer_def getFrame_spec_def demo_frames_def focused_def)

text \<open>With frame 3 focused, the solver is still called with \<^verbatim>\<open>undefined\<close>.\<close>

theorem solveRecaptcha_undefined_frame_witness:
  "run_ops demo_drv 10000
      [Init VUndefined, Type (VStr ''#q'') (VStr ''hi''), FocusFrame (VStr ''https://captcha.example'')]
      (constructor (VRef 100) VUndefined) 0 []
   = (focused, 1,
      [Static ''Functions.init'' [Puppeteer, VNull, VStr ''''],
       Static ''Functions.getFrame'' [VRef 1, VStr ''https://captcha.example'']])
   \<and> field focused ''_frame'' = VRef 3
   \<and> field focused ''_iframe'' = VUndefined
   \<and> solveRecaptcha demo_drv (VStr ''#recaptcha'') focused 1
        [Static ''Functions.init'' [Puppeteer, VNull, VStr ''''],
         Static ''Functions.getFrame'' [VRef 1, VStr ''https://captcha.example'']]
      = (1, Inr VUndefined, focused,
         [Static ''Functions.init'' [Puppeteer, VNull, VStr ''''],
          Static ''Functions.getFrame'' [VRef 1, VStr ''https://captcha.example''],
          Static ''Functions.solveRecaptcha'' [VUndefined, VStr ''#recaptcha'']])"
  using solveRecaptcha_undefined_frame [where drv = demo_drv and selector = "VStr ''#recaptcha''",
          OF run_on_demo] run_on_demo
  by (simp add: field_focused return_value_def await_static_def demo_drv_def demo_answer_def)

end
